theory Spec2Isabelle
  imports Complex_Main "HOL-Library.Word"
begin

section \<open>Python values used by the dictation daemon\<close>

text \<open>
  A Python \<open>str\<close> is a sequence of Unicode code points; \<open>len\<close>, \<open>strip\<close> and
  \<open>==\<close> work on code points, so the model is a list of code-point numbers.
  \<open>str\<close> turns an ASCII literal of the source into that representation.
\<close>

type_synonym pystr = "nat list"

abbreviation str :: "string \<Rightarrow> pystr" where
  "str s \<equiv> map of_char s"

text \<open>
  \<open>str.strip()\<close> without argument removes leading and trailing code points for which
  \<open>str.isspace\<close> holds. These are U+0009..U+000D, U+001C..U+001F, U+0020, U+0085,
  U+00A0, U+1680, U+2000..U+200A, U+2028, U+2029, U+202F, U+205F and U+3000.
\<close>

definition isspace :: "nat \<Rightarrow> bool" where
  "isspace c \<longleftrightarrow>
     (9 \<le> c \<and> c \<le> 13) \<or> (28 \<le> c \<and> c \<le> 32) \<or> c = 133 \<or> c = 160 \<or> c = 5760 \<or>
     (8192 \<le> c \<and> c \<le> 8202) \<or> c = 8232 \<or> c = 8233 \<or> c = 8239 \<or> c = 8287 \<or> c = 12288"

definition strip :: "pystr \<Rightarrow> pystr" where
  "strip s = rev (dropWhile isspace (rev (dropWhile isspace s)))"

text \<open>
  \<open>str.upper()\<close> on ASCII text: the letters a..z go to A..Z, every other ASCII code
  point stays. Python's full Unicode case mapping is not modelled: outside ASCII
  \<open>upper\<close> is not what \<open>str.upper()\<close> computes, so every statement below about the
  value of \<open>upper\<close> carries the hypothesis \<open>ascii\<close> on its argument.
\<close>

definition upper_char :: "nat \<Rightarrow> nat" where
  "upper_char c = (if 97 \<le> c \<and> c \<le> 122 then c - 32 else c)"

definition upper :: "pystr \<Rightarrow> pystr" where
  "upper s = map upper_char s"

definition ascii :: "pystr \<Rightarrow> bool" where
  "ascii s \<longleftrightarrow> list_all (\<lambda>c. c < 128) s"

text \<open>\<open>str(b)\<close> of a Python bool, as the f-string of the TOGGLE branch prints it.\<close>

definition str_of_bool :: "bool \<Rightarrow> pystr" where
  "str_of_bool b = (if b then str ''True'' else str ''False'')"

text \<open>
  A call into the operating system either returns or raises an \<open>Exception\<close>; the
  environment decides which. \<open>None\<close> is the normal return, \<open>Some m\<close> an exception
  whose \<open>str(e)\<close> is \<open>m\<close>.
\<close>

type_synonym outcome = "pystr option"

section \<open>daemon.py\<close>

subsection \<open>Configuration and data\<close>

text \<open>
  The capture stream is opened with \<open>format=paInt16, channels=1\<close>, so \<open>in_data\<close>
  holds 16-bit samples; \<open>np.frombuffer(in_data, dtype=np.int16)\<close> reads them as signed.
  \<open>.astype(np.float32) / 32768.0\<close> gives \<open>k / 2^15\<close> with \<open>-2^15 \<le> k < 2^15\<close>, which
  float32 represents exactly, so a sample of the queue is that rational number.
\<close>

type_synonym block = "16 word list"
type_synonym audio = "rat list"

definition SAMPLE_RATE :: nat where
  "SAMPLE_RATE = 16000"

definition CHUNK_DURATION :: rat where
  "CHUNK_DURATION = 1 / 2"

text \<open>\<open>int(SAMPLE_RATE * CHUNK_DURATION)\<close>, the number of samples the backend puts in a block.\<close>

definition CHUNK_SIZE :: nat where
  "CHUNK_SIZE = nat \<lfloor>of_nat SAMPLE_RATE * CHUNK_DURATION\<rfloor>"

definition to_float32 :: "16 word \<Rightarrow> rat" where
  "to_float32 w = of_int (sint w) / 32768"

definition frombuffer :: "block \<Rightarrow> audio" where
  "frombuffer in_data = map to_float32 in_data"

text \<open>The dict \<open>self.status\<close> with its three keys.\<close>

record status_dict =
  st_active :: bool
  st_text :: pystr
  st_error :: "pystr option"

text \<open>
  What the daemon does to the outside world, in the order it does it: lines printed on
  standard output, the status dict dumped to the status file, \<open>wtype\<close> run with a text,
  the speech model called with an audio buffer, and the 0.1 s sleep of the idle scheduler.
\<close>

datatype event =
    Print pystr
  | Write_status status_dict
  | Run_wtype pystr
  | Transcribe audio
  | Sleep

text \<open>
  The fields of \<open>DictationDaemon\<close> that the methods below read or write: \<open>active\<close>,
  \<open>audio_queue\<close> (a deque of float arrays, oldest first) and \<open>status\<close>. \<open>trace\<close> is
  not a field of the class; it collects the events.
\<close>

record daemon =
  active :: bool
  audio_queue :: "audio list"
  status :: status_dict
  trace :: "event list"

definition emit :: "event list \<Rightarrow> daemon \<Rightarrow> daemon" where
  "emit es s = s\<lparr>trace := trace s @ es\<rparr>"

subsection \<open>update\_status\<close>

text \<open>
  Each keyword argument defaults to \<open>None\<close> and is stored only when it is not \<open>None\<close>.
  Then the whole dict is dumped to the status file; a failing write is caught and
  reported on standard output. \<open>wr\<close> is the outcome of the write.
\<close>

definition update_status ::
  "bool option \<Rightarrow> pystr option \<Rightarrow> pystr option \<Rightarrow> outcome \<Rightarrow> daemon \<Rightarrow> daemon" where
  "update_status a t e wr s =
     (let d0 = status s;
          d1 = (case a of None \<Rightarrow> d0 | Some v \<Rightarrow> d0\<lparr>st_active := v\<rparr>);
          d2 = (case t of None \<Rightarrow> d1 | Some v \<Rightarrow> d1\<lparr>st_text := v\<rparr>);
          d3 = (case e of None \<Rightarrow> d2 | Some v \<Rightarrow> d2\<lparr>st_error := Some v\<rparr>)
      in emit [case wr of None \<Rightarrow> Write_status d3
                        | Some m \<Rightarrow> Print (str ''Failed to write status: '' @ m)]
           (s\<lparr>status := d3\<rparr>))"

text \<open>\<open>__init__\<close>: the fields, then the first publish \<open>update_status(active=False, text="")\<close>.\<close>

definition init :: "outcome \<Rightarrow> daemon" where
  "init wr =
     update_status (Some False) (Some []) None wr
       \<lparr>active = False, audio_queue = [],
        status = \<lparr>st_active = False, st_text = [], st_error = None\<rparr>,
        trace = []\<rparr>"

subsection \<open>type\_text\<close>

text \<open>
  Returns at once on an empty text; otherwise runs \<open>wtype\<close> with the text. \<open>ty\<close> is
  the outcome of \<open>subprocess.run\<close>; an exception is caught and printed.
\<close>

definition type_text :: "pystr \<Rightarrow> outcome \<Rightarrow> daemon \<Rightarrow> daemon" where
  "type_text t ty s =
     (if t = [] then s
      else case ty of
             None \<Rightarrow> emit [Run_wtype t] s
           | Some m \<Rightarrow> emit [Run_wtype t, Print (str ''Failed to type text: '' @ m)] s)"

subsection \<open>audio\_callback\<close>

text \<open>
  Called by the capture backend with each block. The block is converted and appended
  only when \<open>self.active\<close> holds. The value returned to the backend,
  \<open>(in_data, paContinue)\<close>, does not depend on the daemon and is left out.
\<close>

definition audio_callback :: "block \<Rightarrow> daemon \<Rightarrow> daemon" where
  "audio_callback in_data s =
     (if active s then s\<lparr>audio_queue := audio_queue s @ [frombuffer in_data]\<rparr> else s)"

fun deliver :: "block list \<Rightarrow> daemon \<Rightarrow> daemon" where
  "deliver [] s = s"
| "deliver (b # bs) s = deliver bs (audio_callback b s)"

subsection \<open>transcription\_loop\<close>

text \<open>
  \<open>self.model.transcribe\<close> and the iteration over the segments it yields are the speech
  engine: for an audio buffer it gives the texts of the recognised segments, in order, or
  raises. Nothing in \<open>transcription_loop\<close> catches an exception, so a raised one leaves
  the loop and ends the thread; the daemon object stays as it was at that moment. The
  interpreter then reports the exception of the dead thread on standard error; that
  report is not made by the daemon's code and is not an event of the trace.
\<close>

datatype engine_result = Engine_raises pystr | Segments "pystr list"

type_synonym engine = "audio \<Rightarrow> engine_result"

datatype thread_result = Returned daemon | Raised pystr daemon

fun state_of :: "thread_result \<Rightarrow> daemon" where
  "state_of (Returned s) = s"
| "state_of (Raised m s) = s"

text \<open>
  The two statements \<open>audio_data = np.concatenate(list(self.audio_queue))\<close> and
  \<open>self.audio_queue.clear()\<close>, run one after the other with nothing in between.
\<close>

definition drain :: "daemon \<Rightarrow> audio \<times> daemon" where
  "drain s = (concat (audio_queue s), s\<lparr>audio_queue := []\<rparr>)"

text \<open>
  One pass through the body of the \<open>while\<close> loop. \<open>len(q) * CHUNK_DURATION >= 2.0\<close> is
  a float comparison; a multiple of 0.5 is exact in a double, so it is the comparison of
  the rationals. Below the threshold the body does nothing (and does not sleep).
\<close>

definition transcription_step :: "engine \<Rightarrow> outcome \<Rightarrow> outcome \<Rightarrow> daemon \<Rightarrow> thread_result" where
  "transcription_step model ty wr s =
     (if active s \<and> audio_queue s \<noteq> [] then
        if of_nat (length (audio_queue s)) * CHUNK_DURATION \<ge> 2 then
          (case drain s of (audio_data, s1) \<Rightarrow>
             let s2 = emit [Transcribe audio_data] s1 in
             case model audio_data of
               Engine_raises m \<Rightarrow> Raised m s2
             | Segments segments \<Rightarrow>
                 let text_segment = strip (concat segments) in
                 if text_segment \<noteq> [] then
                   Returned
                     (update_status None (Some text_segment) None wr
                        (type_text (text_segment @ str '' '') ty
                           (emit [Print (str ''Transcribed: '' @ text_segment)] s2)))
                 else Returned s2)
        else Returned s
      else Returned (emit [Sleep] s))"

text \<open>
  The loop runs until \<open>stop_event\<close> is set, which another thread does. The list gives
  what the environment answers in each pass made before that; its length is the number
  of passes.
\<close>

fun transcription_loop :: "(engine \<times> outcome \<times> outcome) list \<Rightarrow> daemon \<Rightarrow> thread_result" where
  "transcription_loop [] s = Returned s"
| "transcription_loop ((model, ty, wr) # envs) s =
     (case transcription_step model ty wr s of
        Raised m s' \<Rightarrow> Raised m s'
      | Returned s' \<Rightarrow> transcription_loop envs s')"

subsection \<open>load\_model\<close>

text \<open>
  \<open>ld\<close> is the outcome of constructing the model. On failure the error is published and
  the process exits with code 1 (\<open>Inl\<close>).
\<close>

definition load_model :: "pystr \<Rightarrow> outcome \<Rightarrow> outcome \<Rightarrow> daemon \<Rightarrow> (int \<times> daemon) + daemon" where
  "load_model device ld wr s =
     (let s1 = emit [Print (str ''Loading model (small) on '' @ device @ str ''...'')] s in
      case ld of
        None \<Rightarrow> Inr (emit [Print (str ''Model loaded.'')] s1)
      | Some m \<Rightarrow>
          Inl (1, update_status None None (Some m) wr
                    (emit [Print (str ''Failed to load model: '' @ m)] s1)))"

subsection \<open>run: the command loop\<close>

text \<open>
  One accepted connection. \<open>conn.recv(1024).decode()\<close> either raises (the handler
  prints the error) or gives a text, which is stripped and compared with the three
  command words as they are written in the source. \<open>wr\<close> is the outcome of the status
  write of that command.
\<close>

datatype conn_input = Recv_raises pystr | Recv pystr

definition run_connection :: "conn_input \<Rightarrow> outcome \<Rightarrow> daemon \<Rightarrow> daemon" where
  "run_connection inp wr s =
     (case inp of
        Recv_raises m \<Rightarrow> emit [Print (str ''Socket error: '' @ m)] s
      | Recv raw \<Rightarrow>
          let data = strip raw in
          if data = str ''START'' then
            update_status (Some True) None None wr
              ((emit [Print (str ''Command: START'')] s)\<lparr>active := True, audio_queue := []\<rparr>)
          else if data = str ''STOP'' then
            update_status (Some False) None None wr
              ((emit [Print (str ''Command: STOP'')] s)\<lparr>active := False\<rparr>)
          else if data = str ''TOGGLE'' then
            (let s1 = s\<lparr>active := \<not> active s, audio_queue := []\<rparr>;
                 s2 = update_status (Some (active s1)) None None wr s1
             in emit [Print (str ''Command: TOGGLE -> '' @ str_of_bool (active s2))] s2)
          else s)"

text \<open>The accept loop handles the connections one after the other.\<close>

fun run_connections :: "(conn_input \<times> outcome) list \<Rightarrow> daemon \<Rightarrow> daemon" where
  "run_connections [] s = s"
| "run_connections ((inp, wr) # cs) s = run_connections cs (run_connection inp wr s)"

subsection \<open>The capture thread running beside the scheduler thread\<close>

text \<open>
  \<open>audio_callback\<close> runs on the capture backend's thread and \<open>transcription_loop\<close> on
  its own thread; neither takes \<open>self.lock\<close>, which only \<open>update_status\<close> uses. The
  interpreter may switch threads between two statements, so the drain of the scheduler
  is two atomic steps, the concatenation into the local variable \<open>audio_data\<close> and the
  clear, and a call of \<open>audio_callback\<close> can run before, between or after them.
\<close>

record threads =
  shared :: daemon
  audio_data :: "audio option"

datatype atomic = Callback block | Concatenate | Clear

fun atomic_step :: "threads \<Rightarrow> atomic \<Rightarrow> threads" where
  "atomic_step t (Callback in_data) = t\<lparr>shared := audio_callback in_data (shared t)\<rparr>"
| "atomic_step t Concatenate = t\<lparr>audio_data := Some (concat (audio_queue (shared t)))\<rparr>"
| "atomic_step t Clear = t\<lparr>shared := (shared t)\<lparr>audio_queue := []\<rparr>\<rparr>"

definition interleaving :: "atomic list \<Rightarrow> daemon \<Rightarrow> threads" where
  "interleaving steps s = foldl atomic_step \<lparr>shared = s, audio_data = None\<rparr> steps"

text \<open>All the orders in which the steps of two threads can run, each thread keeping its own order.\<close>

fun interleavings :: "'a list \<Rightarrow> 'a list \<Rightarrow> 'a list list" where
  "interleavings [] ys = [ys]"
| "interleavings xs [] = [xs]"
| "interleavings (x # xs) (y # ys) =
     map ((#) x) (interleavings xs (y # ys)) @ map ((#) y) (interleavings (x # xs) ys)"

section \<open>client.py\<close>

text \<open>
  What the client process leaves behind: the lines printed on standard output and on
  standard error, the texts sent over the socket, and the argument of \<open>sys.exit\<close> if it
  was called. \<open>print\<close> without \<open>file=\<close> writes to standard output. \<open>sock\<close> is the
  outcome of the socket calls inside the \<open>try\<close>.
\<close>

record client =
  stdout :: "pystr list"
  stderr :: "pystr list"
  sent :: "pystr list"
  exited :: "int option"

definition send_command :: "pystr \<Rightarrow> outcome \<Rightarrow> client \<Rightarrow> client" where
  "send_command cmd sock c =
     (case sock of
        None \<Rightarrow> c\<lparr>sent := sent c @ [cmd]\<rparr>
      | Some m \<Rightarrow> c\<lparr>stdout := stdout c @ [str ''Failed to connect to daemon: '' @ m],
                     exited := Some 1\<rparr>)"

definition client_main :: "pystr list \<Rightarrow> outcome \<Rightarrow> client" where
  "client_main argv sock =
     (let c = \<lparr>stdout = [], stderr = [], sent = [], exited = None\<rparr> in
      if length argv < 2 then
        c\<lparr>stdout := [str ''Usage: client.py [START|STOP|TOGGLE]''], exited := Some 1\<rparr>
      else send_command (upper (argv ! 1)) sock c)"

text \<open>A script that reaches its end without \<open>sys.exit\<close> exits with code 0.\<close>

definition exit_code :: "client \<Rightarrow> int" where
  "exit_code c = (case exited c of None \<Rightarrow> 0 | Some n \<Rightarrow> n)"

section \<open>Projections of the trace\<close>

fun engine_call :: "event \<Rightarrow> audio list" where
  "engine_call (Transcribe a) = [a]"
| "engine_call _ = []"

definition engine_calls :: "daemon \<Rightarrow> audio list" where
  "engine_calls s = concat (map engine_call (trace s))"

fun injection :: "event \<Rightarrow> pystr list" where
  "injection (Run_wtype t) = [t]"
| "injection _ = []"

definition injections :: "daemon \<Rightarrow> pystr list" where
  "injections s = concat (map injection (trace s))"

fun publish :: "event \<Rightarrow> status_dict list" where
  "publish (Write_status d) = [d]"
| "publish _ = []"

definition publishes :: "daemon \<Rightarrow> status_dict list" where
  "publishes s = concat (map publish (trace s))"

section \<open>The command table of the specification\<close>

text \<open>
  The specification names three commands and tabulates their effect on \<open>recording\<close>:
  START sets it, STOP resets it, TOGGLE inverts it. \<open>token\<close> is the text of a command
  as it arrives on the socket.
\<close>

datatype command = START | STOP | TOGGLE

fun token :: "command \<Rightarrow> pystr" where
  "token START = str ''START''"
| "token STOP = str ''STOP''"
| "token TOGGLE = str ''TOGGLE''"

fun spec_recording :: "bool \<Rightarrow> command \<Rightarrow> bool" where
  "spec_recording r START = True"
| "spec_recording r STOP = False"
| "spec_recording r TOGGLE = (\<not> r)"

definition send :: "command \<times> outcome \<Rightarrow> conn_input \<times> outcome" where
  "send c = (Recv (token (fst c)), snd c)"

section \<open>Runs of the daemon\<close>

text \<open>
  After \<open>__init__\<close> the daemon object is changed by handled connections, by delivered
  blocks, by passes of the scheduler loop and by calls of \<open>update_status\<close>, in some
  order. A run is a list of these operations; a scheduler pass whose engine call raises
  leaves the state it had reached.
\<close>

datatype operation =
    Connection conn_input outcome
  | Block block
  | Scheduler_pass engine outcome outcome
  | Publish "bool option" "pystr option" "pystr option" outcome

fun perform :: "daemon \<Rightarrow> operation \<Rightarrow> daemon" where
  "perform s (Connection inp wr) = run_connection inp wr s"
| "perform s (Block in_data) = audio_callback in_data s"
| "perform s (Scheduler_pass model ty wr) = state_of (transcription_step model ty wr s)"
| "perform s (Publish a t e wr) = update_status a t e wr s"

definition perform_all :: "operation list \<Rightarrow> daemon \<Rightarrow> daemon" where
  "perform_all ops s = foldl perform s ops"

section \<open>Engines for the examples\<close>

text \<open>Three speech engines: one that raises, one that hears nothing, one that hears two segments.\<close>

definition failing_engine :: engine where
  "failing_engine a = Engine_raises (str ''boom'')"

definition silent_engine :: engine where
  "silent_engine a = Segments []"

definition hello_engine :: engine where
  "hello_engine a = Segments [str '' hello'', str '' world '']"

text \<open>A recording daemon: freshly constructed, then START.\<close>

definition started :: daemon where
  "started = run_connection (Recv (str ''START'')) None (init None)"

text \<open>The same after four blocks of one sample each.\<close>

definition four_queued :: daemon where
  "four_queued = deliver [[1], [2], [3], [4]] started"

text \<open>The daemon as it is when loading the model has failed and the process exits.\<close>

definition load_failed :: daemon where
  "load_failed =
     (case load_model (str ''cpu'') (Some (str ''no model'')) None (init None) of
        Inl (code, s) \<Rightarrow> s | Inr s \<Rightarrow> s)"

section \<open>An invariant of runs\<close>

text \<open>
  \<open>error_kept s s'\<close>: the status dict of \<open>s'\<close> has an error, and the snapshots published
  on the way from \<open>s\<close> to \<open>s'\<close> all have one.
\<close>

definition error_kept :: "daemon \<Rightarrow> daemon \<Rightarrow> bool" where
  "error_kept s s' \<longleftrightarrow>
     st_error (status s') \<noteq> None \<and>
     (\<exists>new. publishes s' = publishes s @ new \<and> (\<forall>d \<in> set new. st_error d \<noteq> None))"

section \<open>Basic facts\<close>

lemma emit_fields [simp]:
  "active (emit es s) = active s"
  "audio_queue (emit es s) = audio_queue s"
  "status (emit es s) = status s"
  "trace (emit es s) = trace s @ es"
  by (simp_all add: emit_def)

lemma update_status_fields [simp]:
  "active (update_status a t e wr s) = active s"
  "audio_queue (update_status a t e wr s) = audio_queue s"
  by (simp_all add: update_status_def Let_def)

lemma update_status_status:
  "st_active (status (update_status a t e wr s)) =
     (case a of None \<Rightarrow> st_active (status s) | Some v \<Rightarrow> v)"
  "st_text (status (update_status a t e wr s)) =
     (case t of None \<Rightarrow> st_text (status s) | Some v \<Rightarrow> v)"
  "st_error (status (update_status a t e wr s)) =
     (case e of None \<Rightarrow> st_error (status s) | Some v \<Rightarrow> Some v)"
  by (simp_all add: update_status_def Let_def split: option.splits)

lemma update_status_trace:
  "trace (update_status a t e wr s) =
     trace s @ [case wr of None \<Rightarrow> Write_status (status (update_status a t e wr s))
                         | Some m \<Rightarrow> Print (str ''Failed to write status: '' @ m)]"
  by (cases wr; simp add: update_status_def Let_def)

lemma strip_token [simp]: "strip (token c) = token c"
  by (cases c) (simp_all add: strip_def isspace_def)

lemma token_distinct [simp]:
  "token c = str ''START'' \<longleftrightarrow> c = START"
  "token c = str ''STOP'' \<longleftrightarrow> c = STOP"
  "token c = str ''TOGGLE'' \<longleftrightarrow> c = TOGGLE"
  by (cases c; simp)+

lemma run_connection_command:
  "active (run_connection (Recv (token c)) wr s) = spec_recording (active s) c"
  "audio_queue (run_connection (Recv (token c)) wr s) = (if c = STOP then audio_queue s else [])"
  by (cases c; simp add: run_connection_def Let_def strip_def isspace_def)+

lemma run_connection_command_status:
  "status (run_connection (Recv (token c)) wr s) =
     (status s)\<lparr>st_active := spec_recording (active s) c\<rparr>"
  by (cases c; simp add: run_connection_def update_status_def Let_def strip_def isspace_def)

lemma deliver_inactive: "\<not> active s \<Longrightarrow> deliver bs s = s"
  by (induction bs) (simp_all add: audio_callback_def)

lemma deliver_active:
  "active s \<Longrightarrow> deliver bs s = s\<lparr>audio_queue := audio_queue s @ map frombuffer bs\<rparr>"
  by (induction bs arbitrary: s) (simp_all add: audio_callback_def)

lemma to_float32_range: "- 1 \<le> to_float32 w \<and> to_float32 w < 1"
proof -
  have "- (2 ^ (LENGTH(16) - 1)) \<le> sint w" and "sint w < 2 ^ (LENGTH(16) - 1)"
    by (rule sint_ge, rule sint_lt)
  then have "- 32768 \<le> sint w" and "sint w < 32768"
    by simp_all
  then have "(- 32768 :: rat) \<le> of_int (sint w)" and "(of_int (sint w) :: rat) < 32768"
    by linarith+
  then show ?thesis
    by (simp add: to_float32_def divide_simps)
qed


lemma projections_emit [simp]:
  "engine_calls (emit es s) = engine_calls s @ concat (map engine_call es)"
  "injections (emit es s) = injections s @ concat (map injection es)"
  "publishes (emit es s) = publishes s @ concat (map publish es)"
  by (simp_all add: engine_calls_def injections_def publishes_def)

lemma projections_field_update [simp]:
  "engine_calls (s\<lparr>audio_queue := q\<rparr>) = engine_calls s"
  "injections (s\<lparr>audio_queue := q\<rparr>) = injections s"
  "publishes (s\<lparr>audio_queue := q\<rparr>) = publishes s"
  "engine_calls (s\<lparr>active := r\<rparr>) = engine_calls s"
  "injections (s\<lparr>active := r\<rparr>) = injections s"
  "publishes (s\<lparr>active := r\<rparr>) = publishes s"
  by (simp_all add: engine_calls_def injections_def publishes_def)

lemma projections_update_status [simp]:
  "engine_calls (update_status a t e wr s) = engine_calls s"
  "injections (update_status a t e wr s) = injections s"
  "publishes (update_status a t e wr s) =
     publishes s @ (case wr of None \<Rightarrow> [status (update_status a t e wr s)] | Some m \<Rightarrow> [])"
  by (cases wr; simp add: engine_calls_def injections_def publishes_def update_status_trace)+

lemma type_text_fields [simp]:
  "active (type_text t ty s) = active s"
  "audio_queue (type_text t ty s) = audio_queue s"
  "status (type_text t ty s) = status s"
  "engine_calls (type_text t ty s) = engine_calls s"
  "publishes (type_text t ty s) = publishes s"
  "injections (type_text t ty s) = injections s @ (if t = [] then [] else [t])"
  by (cases ty; simp add: type_text_def)+

lemma threshold: "(2 \<le> of_nat n * CHUNK_DURATION) \<longleftrightarrow> 4 \<le> n"
  by (simp add: CHUNK_DURATION_def) 

lemma transcription_step_below:
  "length (audio_queue s) < 4 \<Longrightarrow>
   transcription_step model ty wr s =
     Returned (if active s \<and> audio_queue s \<noteq> [] then s else emit [Sleep] s)"
  by (simp add: transcription_step_def threshold)

lemma transcription_step_drains:
  assumes "active s" and "4 \<le> length (audio_queue s)"
  shows "transcription_step model ty wr s =
     (let audio_data = concat (audio_queue s);
          s2 = emit [Transcribe audio_data] (s\<lparr>audio_queue := []\<rparr>)
      in case model audio_data of
           Engine_raises m \<Rightarrow> Raised m s2
         | Segments segments \<Rightarrow>
             if strip (concat segments) \<noteq> [] then
               Returned
                 (update_status None (Some (strip (concat segments))) None wr
                    (type_text (strip (concat segments) @ str '' '') ty
                       (emit [Print (str ''Transcribed: '' @ strip (concat segments))] s2)))
             else Returned s2)"
proof -
  from assms(2) have "audio_queue s \<noteq> []"
    by auto
  with assms show ?thesis
    by (simp add: transcription_step_def threshold drain_def Let_def split: engine_result.splits)
qed

lemma transcription_loop_below:
  "length (audio_queue s) < 4 \<Longrightarrow>
   active (state_of (transcription_loop envs s)) = active s \<and>
   audio_queue (state_of (transcription_loop envs s)) = audio_queue s \<and>
   engine_calls (state_of (transcription_loop envs s)) = engine_calls s \<and>
   status (state_of (transcription_loop envs s)) = status s"
proof (induction envs arbitrary: s)
  case Nil
  show ?case by simp
next
  case (Cons env envs)
  obtain model ty wr where env: "env = (model, ty, wr)"
    by (cases env)
  let ?s' = "if active s \<and> audio_queue s \<noteq> [] then s else emit [Sleep] s"
  have step: "transcription_step model ty wr s = Returned ?s'"
    using Cons.prems by (rule transcription_step_below)
  have "length (audio_queue ?s') < 4"
    using Cons.prems by simp
  from Cons.IH [OF this] show ?case
    by (simp add: env step)
qed

lemma CHUNK_SIZE_value: "CHUNK_SIZE = 8000"
  by (simp add: CHUNK_SIZE_def SAMPLE_RATE_def CHUNK_DURATION_def)

lemma start_then_deliver:
  "deliver bs (run_connection (Recv (str ''START'')) wr s) =
     (run_connection (Recv (str ''START'')) wr s)\<lparr>audio_queue := map frombuffer bs\<rparr>"
  using run_connection_command [of START wr s]
    deliver_active [of "run_connection (Recv (str ''START'')) wr s" bs]
  by simp

lemma start_engine_calls:
  "engine_calls (run_connection (Recv (str ''START'')) wr s) = engine_calls s"
  by (simp add: run_connection_def strip_def isspace_def)

lemma transcription_loop_drains:
  assumes "active s" and "4 \<le> length (audio_queue s)" and "envs \<noteq> []"
  shows "engine_calls (state_of (transcription_loop envs s)) =
           engine_calls s @ [concat (audio_queue s)]
         \<and> audio_queue (state_of (transcription_loop envs s)) = []"
proof -
  from assms(3) obtain model ty wr rest where envs: "envs = (model, ty, wr) # rest"
    by (cases envs) auto
  let ?pass = "transcription_step model ty wr s"
  have pass: "audio_queue (state_of ?pass) = [] \<and>
      engine_calls (state_of ?pass) = engine_calls s @ [concat (audio_queue s)]"
    by (simp add: transcription_step_drains [OF assms(1,2)] Let_def split: engine_result.splits)
  show ?thesis
  proof (cases ?pass)
    case (Raised m s')
    with pass show ?thesis by (simp add: envs)
  next
    case (Returned s')
    with pass have "length (audio_queue s') < 4" by simp
    from transcription_loop_below [OF this, of rest] pass Returned show ?thesis
      by (simp add: envs)
  qed
qed

lemma started_fields:
  "active started" "audio_queue started = []" "engine_calls started = []"
  "injections started = []"
  "status started = \<lparr>st_active = True, st_text = [], st_error = None\<rparr>"
  "publishes started = [\<lparr>st_active = False, st_text = [], st_error = None\<rparr>,
                        \<lparr>st_active = True, st_text = [], st_error = None\<rparr>]"
  by (simp_all add: started_def init_def run_connection_def update_status_def strip_def
      isspace_def Let_def engine_calls_def injections_def publishes_def emit_def)

lemma four_queued_fields:
  "active four_queued"
  "audio_queue four_queued = [[1 / 32768], [1 / 16384], [3 / 32768], [1 / 8192]]"
  "injections four_queued = []"
  "status four_queued = \<lparr>st_active = True, st_text = [], st_error = None\<rparr>"
  by (simp_all add: four_queued_def audio_callback_def started_fields frombuffer_def to_float32_def)

lemma run_connection_other:
  "strip raw \<noteq> str ''START'' \<Longrightarrow> strip raw \<noteq> str ''STOP'' \<Longrightarrow> strip raw \<noteq> str ''TOGGLE'' \<Longrightarrow>
   run_connection (Recv raw) wr s = s"
  by (simp add: run_connection_def)

lemma run_connection_token:
  "strip raw = token c \<Longrightarrow> run_connection (Recv raw) wr s = run_connection (Recv (token c)) wr s"
  by (simp add: run_connection_def)

lemma client_main_returns:
  "2 \<le> length argv \<Longrightarrow>
   stdout (client_main argv None) = [] \<and> stderr (client_main argv None) = [] \<and>
   exited (client_main argv None) = None \<and> length (sent (client_main argv None)) = 1"
  by (simp add: client_main_def send_command_def)

lemma client_main_sends:
  "2 \<le> length argv \<Longrightarrow> ascii (argv ! 1) \<Longrightarrow>
   sent (client_main argv None) = [upper (argv ! 1)]"
  by (simp add: client_main_def send_command_def)

lemma client_main_fails:
  "2 \<le> length argv \<Longrightarrow>
   client_main argv (Some m) =
     \<lparr>stdout = [str ''Failed to connect to daemon: '' @ m], stderr = [], sent = [],
      exited = Some 1\<rparr>"
  by (simp add: client_main_def send_command_def)

lemma transcription_loop_inactive:
  "\<not> active s \<Longrightarrow>
   active (state_of (transcription_loop envs s)) = active s \<and>
   audio_queue (state_of (transcription_loop envs s)) = audio_queue s \<and>
   engine_calls (state_of (transcription_loop envs s)) = engine_calls s"
proof (induction envs arbitrary: s)
  case Nil
  show ?case by simp
next
  case (Cons env envs)
  obtain model ty wr where env: "env = (model, ty, wr)"
    by (cases env)
  from Cons.prems have step: "transcription_step model ty wr s = Returned (emit [Sleep] s)"
    by (simp add: transcription_step_def)
  from Cons.prems have "\<not> active (emit [Sleep] s)"
    by simp
  from Cons.IH [OF this] show ?case
    by (simp add: env step)
qed

lemma error_kept_refl: "st_error (status s) \<noteq> None \<Longrightarrow> error_kept s s"
  by (simp add: error_kept_def)

lemma error_kept_trans: "error_kept s s' \<Longrightarrow> error_kept s' s'' \<Longrightarrow> error_kept s s''"
  by (auto simp add: error_kept_def)

lemma error_kept_update_status:
  assumes "st_error (status s) \<noteq> None"
  shows "error_kept s (update_status a t e wr s)"
  using assms
  by (cases wr; cases e; simp add: error_kept_def update_status_status)

lemma error_kept_same:
  "st_error (status s) \<noteq> None \<Longrightarrow> status s' = status s \<Longrightarrow> publishes s' = publishes s \<Longrightarrow>
   error_kept s s'"
  by (simp add: error_kept_def)

lemma error_kept_run_connection:
  assumes "st_error (status s) \<noteq> None"
  shows "error_kept s (run_connection inp wr s)"
proof (cases inp)
  case (Recv_raises m)
  with assms show ?thesis
    by (simp add: run_connection_def error_kept_same)
next
  case (Recv raw)
  have start: "error_kept s (update_status (Some True) None None wr
      ((emit [Print (str ''Command: START'')] s)\<lparr>active := True, audio_queue := []\<rparr>))"
    using error_kept_update_status [of "(emit [Print (str ''Command: START'')] s)\<lparr>active := True, audio_queue := []\<rparr>"
        "Some True" None None wr] assms
    by (simp add: error_kept_def)
  have stop: "error_kept s (update_status (Some False) None None wr
      ((emit [Print (str ''Command: STOP'')] s)\<lparr>active := False\<rparr>))"
    using error_kept_update_status [of "(emit [Print (str ''Command: STOP'')] s)\<lparr>active := False\<rparr>"
        "Some False" None None wr] assms
    by (simp add: error_kept_def)
  have toggle: "error_kept s (emit [Print p]
      (update_status (Some r) None None wr (s\<lparr>active := \<not> active s, audio_queue := []\<rparr>)))" for p r
    using error_kept_update_status [of "s\<lparr>active := \<not> active s, audio_queue := []\<rparr>"
        "Some r" None None wr] assms
    by (simp add: error_kept_def)
  from Recv start stop toggle assms show ?thesis
    by (simp add: run_connection_def Let_def error_kept_refl)
qed

lemma error_kept_transcription_step:
  assumes "st_error (status s) \<noteq> None"
  shows "error_kept s (state_of (transcription_step model ty wr s))"
proof (cases "active s \<and> 4 \<le> length (audio_queue s)")
  case True
  let ?s2 = "emit [Transcribe (concat (audio_queue s))] (s\<lparr>audio_queue := []\<rparr>)"
  have typed: "error_kept s (update_status None (Some t) None wr
      (type_text (t @ str '' '') ty (emit [Print p] ?s2)))" for t p
    using error_kept_update_status [of "type_text (t @ str '' '') ty (emit [Print p] ?s2)"
        None "Some t" None wr] assms
    by (simp add: error_kept_def)
  have "error_kept s ?s2"
    using assms by (simp add: error_kept_same)
  with True typed show ?thesis
    by (simp add: transcription_step_drains Let_def split: engine_result.splits)
next
  case False
  then have "state_of (transcription_step model ty wr s) = s
      \<or> state_of (transcription_step model ty wr s) = emit [Sleep] s"
    by (auto simp add: transcription_step_def threshold)
  with assms show ?thesis
    by (auto simp add: error_kept_same)
qed

lemma error_kept_perform:
  assumes "st_error (status s) \<noteq> None"
  shows "error_kept s (perform s op)"
proof (cases op)
  case (Connection inp wr)
  with assms show ?thesis by (simp add: error_kept_run_connection)
next
  case (Block in_data)
  with assms show ?thesis by (simp add: audio_callback_def error_kept_same)
next
  case (Scheduler_pass model ty wr)
  with assms show ?thesis by (simp add: error_kept_transcription_step)
next
  case (Publish a t e wr)
  with assms show ?thesis by (simp add: error_kept_update_status)
qed

lemma error_kept_perform_all:
  "st_error (status s) \<noteq> None \<Longrightarrow> error_kept s (perform_all ops s)"
proof (induction ops arbitrary: s)
  case Nil
  then show ?case by (simp add: perform_all_def error_kept_refl)
next
  case (Cons op ops)
  from Cons.prems have 1: "error_kept s (perform s op)"
    by (rule error_kept_perform)
  then have "st_error (status (perform s op)) \<noteq> None"
    by (simp add: error_kept_def)
  then have "error_kept (perform s op) (perform_all ops (perform s op))"
    by (rule Cons.IH)
  with 1 have "error_kept s (perform_all ops (perform s op))"
    by (rule error_kept_trans)
  then show ?case by (simp add: perform_all_def)
qed

section \<open>Audio ingestion\<close>

text \<open>
  C7. A delivered block is appended to the queue, converted to samples \<open>k / 32768\<close>
  in the range from -1 to 1, exactly when \<open>active\<close> holds at the delivery. While
  \<open>active\<close> is false, delivering any list of blocks changes nothing, so the length of
  the queue stays; while it is true, the queue grows by one entry per block.
\<close>

theorem audio_callback_appends_iff_recording:
  "(audio_queue (audio_callback b s) = audio_queue s @ [frombuffer b] \<longleftrightarrow> active s)
   \<and> (\<not> active s \<longrightarrow> audio_callback b s = s \<and> deliver bs s = s)
   \<and> length (audio_queue (deliver bs s)) =
       (if active s then length (audio_queue s) + length bs else length (audio_queue s))
   \<and> frombuffer b = map (\<lambda>w. of_int (sint w) / 32768) b
   \<and> (\<forall>x \<in> set (frombuffer b). - 1 \<le> x \<and> x < 1)"
proof -
  have 1: "audio_queue (audio_callback b s) = audio_queue s @ [frombuffer b] \<longleftrightarrow> active s"
    by (simp add: audio_callback_def)
  have 2: "\<not> active s \<longrightarrow> audio_callback b s = s \<and> deliver bs s = s"
    by (simp add: audio_callback_def deliver_inactive)
  have 3: "length (audio_queue (deliver bs s)) =
       (if active s then length (audio_queue s) + length bs else length (audio_queue s))"
    by (simp add: deliver_inactive deliver_active)
  have 4: "frombuffer b = map (\<lambda>w. of_int (sint w) / 32768) b"
    by (simp add: frombuffer_def to_float32_def)
  have 5: "\<forall>x \<in> set (frombuffer b). - 1 \<le> x \<and> x < 1"
    using to_float32_range by (auto simp: frombuffer_def)
  from 1 2 3 4 5 show ?thesis by blast
qed

theorem audio_callback_appends_iff_recording_witness:
  "\<not> active (init None)
   \<and> audio_callback [1, 2] (init None) = init None
   \<and> deliver [[1, 2], [3]] (init None) = init None
   \<and> 1 / 32768 \<in> set (frombuffer [1, 2])
   \<and> - 1 \<le> (1 / 32768 :: rat) \<and> (1 / 32768 :: rat) < 1"
proof -
  have h: "\<not> active (init None)"
    by (simp add: init_def)
  have m: "1 / 32768 \<in> set (frombuffer [1, 2])"
    by (simp add: frombuffer_def to_float32_def)
  note t = audio_callback_appends_iff_recording [of "[1, 2]" "init None" "[[1, 2], [3]]"]
  from t h have a: "audio_callback [1, 2] (init None) = init None"
    and d: "deliver [[1, 2], [3]] (init None) = init None"
    by blast+
  from t m have r: "- 1 \<le> (1 / 32768 :: rat) \<and> (1 / 32768 :: rat) < 1"
    by blast
  from h a d m r show ?thesis by blast
qed

section \<open>Commands\<close>

text \<open>
  C3. START sets \<open>active\<close> and empties the queue; STOP resets \<open>active\<close> and leaves the
  queue as it is, without calling the engine, and the scheduler loop that runs after it
  neither touches the queue nor calls the engine; TOGGLE inverts \<open>active\<close> and empties
  the queue. Along every sequence of commands \<open>active\<close> is what the table of the
  specification gives, and after a sequence that ends in START or TOGGLE the queue is
  empty.
\<close>

theorem commands_follow_table:
  "active (run_connection (Recv (str ''START'')) wr s) = True
   \<and> audio_queue (run_connection (Recv (str ''START'')) wr s) = []
   \<and> active (run_connection (Recv (str ''STOP'')) wr s) = False
   \<and> audio_queue (run_connection (Recv (str ''STOP'')) wr s) = audio_queue s
   \<and> engine_calls (run_connection (Recv (str ''STOP'')) wr s) = engine_calls s
   \<and> audio_queue (state_of (transcription_loop envs (run_connection (Recv (str ''STOP'')) wr s)))
       = audio_queue s
   \<and> engine_calls (state_of (transcription_loop envs (run_connection (Recv (str ''STOP'')) wr s)))
       = engine_calls s
   \<and> active (run_connection (Recv (str ''TOGGLE'')) wr s) = (\<not> active s)
   \<and> audio_queue (run_connection (Recv (str ''TOGGLE'')) wr s) = []
   \<and> active (run_connections (map send cs) s) = foldl spec_recording (active s) (map fst cs)
   \<and> (cs \<noteq> [] \<and> fst (last cs) \<noteq> STOP \<longrightarrow> audio_queue (run_connections (map send cs) s) = [])"
proof -
  have 1: "active (run_connection (Recv (str ''START'')) wr s) = True"
    "audio_queue (run_connection (Recv (str ''START'')) wr s) = []"
    using run_connection_command [of START wr s] by simp_all
  have 2: "active (run_connection (Recv (str ''STOP'')) wr s) = False"
    "audio_queue (run_connection (Recv (str ''STOP'')) wr s) = audio_queue s"
    using run_connection_command [of STOP wr s] by simp_all
  have 3: "engine_calls (run_connection (Recv (str ''STOP'')) wr s) = engine_calls s"
    by (simp add: run_connection_def engine_calls_def update_status_trace strip_def isspace_def
        split: option.splits)
  have "\<not> active (run_connection (Recv (str ''STOP'')) wr s)"
    using 2(1) by simp
  from transcription_loop_inactive [OF this, of envs] 2(2) 3
  have 7: "audio_queue (state_of (transcription_loop envs (run_connection (Recv (str ''STOP'')) wr s)))
       = audio_queue s"
    "engine_calls (state_of (transcription_loop envs (run_connection (Recv (str ''STOP'')) wr s)))
       = engine_calls s"
    by simp_all
  have 4: "active (run_connection (Recv (str ''TOGGLE'')) wr s) = (\<not> active s)"
    "audio_queue (run_connection (Recv (str ''TOGGLE'')) wr s) = []"
    using run_connection_command [of TOGGLE wr s] by simp_all
  have 5: "active (run_connections (map send cs) s) = foldl spec_recording (active s) (map fst cs)"
    by (induction cs arbitrary: s) (simp_all add: send_def run_connection_command)
  have 6: "cs \<noteq> [] \<and> fst (last cs) \<noteq> STOP \<longrightarrow> audio_queue (run_connections (map send cs) s) = []"
  proof (induction cs arbitrary: s)
    case Nil
    show ?case by simp
  next
    case (Cons c cs)
    show ?case
    proof (cases "cs = []")
      case True
      then show ?thesis by (simp add: send_def run_connection_command)
    next
      case False
      with Cons [of "run_connection (Recv (token (fst c))) (snd c) s"] show ?thesis
        by (simp add: send_def)
    qed
  qed
  show ?thesis by (intro conjI 1 2 3 4 5 6 7)
qed

theorem commands_follow_table_witness:
  "([(STOP, None), (TOGGLE, None :: outcome)] \<noteq> []
      \<and> fst (last [(STOP, None), (TOGGLE, None :: outcome)]) \<noteq> STOP)
   \<and> audio_queue (run_connections (map send [(STOP, None), (TOGGLE, None)])
        (deliver [[7]] (run_connection (Recv (str ''START'')) None (init None)))) = []"
proof -
  have h: "[(STOP, None), (TOGGLE, None :: outcome)] \<noteq> []
      \<and> fst (last [(STOP, None), (TOGGLE, None :: outcome)]) \<noteq> STOP"
    by simp
  note t = commands_follow_table [where wr = None
      and s = "deliver [[7]] (run_connection (Recv (str ''START'')) None (init None))"
      and cs = "[(STOP, None), (TOGGLE, None)]"]
  from t h have c: "audio_queue (run_connections (map send [(STOP, None), (TOGGLE, None)])
        (deliver [[7]] (run_connection (Recv (str ''START'')) None (init None)))) = []"
    by blast
  show ?thesis by (rule conjI [OF h c])
qed

text \<open>
  C8. A second STOP right after a STOP changes none of \<open>active\<close>, the queue and the
  status dict, which holds the last text and the last error.
\<close>

theorem stop_twice_is_stop_once:
  "active (run_connection (Recv (str ''STOP'')) wr2 (run_connection (Recv (str ''STOP'')) wr1 s))
     = active (run_connection (Recv (str ''STOP'')) wr1 s)
   \<and> audio_queue (run_connection (Recv (str ''STOP'')) wr2 (run_connection (Recv (str ''STOP'')) wr1 s))
     = audio_queue (run_connection (Recv (str ''STOP'')) wr1 s)
   \<and> status (run_connection (Recv (str ''STOP'')) wr2 (run_connection (Recv (str ''STOP'')) wr1 s))
     = status (run_connection (Recv (str ''STOP'')) wr1 s)"
  using run_connection_command [of STOP] run_connection_command_status [of STOP]
  by simp

text \<open>
  C4 (amended). The daemon strips white space from the received text and compares the
  result with START, STOP and TOGGLE as written, in upper case; it does not change the
  case. A text that strips to one of the three words has that command's effect, and any
  other text, the lower-case word included, changes nothing and publishes nothing. The
  upper-casing is done by the client, which sends \<open>sys.argv[1].upper()\<close>; for an ASCII
  argument that is the argument with a..z replaced by A..Z, so that an ASCII argument
  whose upper-case form is a command word has that command's effect.
\<close>

theorem daemon_matches_commands_exactly:
  "(strip raw \<noteq> str ''START'' \<and> strip raw \<noteq> str ''STOP'' \<and> strip raw \<noteq> str ''TOGGLE'' \<longrightarrow>
      run_connection (Recv raw) wr s = s)
   \<and> (strip raw = token c \<longrightarrow>
        run_connection (Recv raw) wr s = run_connection (Recv (token c)) wr s
        \<and> active (run_connection (Recv raw) wr s) = spec_recording (active s) c
        \<and> audio_queue (run_connection (Recv raw) wr s) = (if c = STOP then audio_queue s else []))
   \<and> (2 \<le> length argv \<and> ascii (argv ! 1) \<longrightarrow>
        sent (client_main argv None) = [upper (argv ! 1)])
   \<and> (ascii arg \<and> upper arg = token c \<longrightarrow>
        (\<forall>x \<in> set (sent (client_main [prog, arg] None)).
           run_connection (Recv x) wr s = run_connection (Recv (token c)) wr s))"
proof -
  have 1: "strip raw \<noteq> str ''START'' \<and> strip raw \<noteq> str ''STOP'' \<and> strip raw \<noteq> str ''TOGGLE'' \<longrightarrow>
      run_connection (Recv raw) wr s = s"
    using run_connection_other [of raw wr s] by blast
  have 2: "strip raw = token c \<longrightarrow>
        run_connection (Recv raw) wr s = run_connection (Recv (token c)) wr s
        \<and> active (run_connection (Recv raw) wr s) = spec_recording (active s) c
        \<and> audio_queue (run_connection (Recv raw) wr s) = (if c = STOP then audio_queue s else [])"
    using run_connection_token [of raw c wr s] run_connection_command [of c wr s] by simp
  have 3: "2 \<le> length argv \<and> ascii (argv ! 1) \<longrightarrow>
        sent (client_main argv None) = [upper (argv ! 1)]"
    by (simp add: client_main_sends)
  have 4: "ascii arg \<and> upper arg = token c \<longrightarrow>
        (\<forall>x \<in> set (sent (client_main [prog, arg] None)).
           run_connection (Recv x) wr s = run_connection (Recv (token c)) wr s)"
    by (simp add: client_main_sends)
  show ?thesis by (intro conjI 1 2 3 4)
qed

theorem daemon_matches_commands_exactly_witness:
  "(strip (str ''start'') \<noteq> str ''START'' \<and> strip (str ''start'') \<noteq> str ''STOP''
       \<and> strip (str ''start'') \<noteq> str ''TOGGLE'')
   \<and> strip (str '' TOGGLE\<newline>'') = token TOGGLE
   \<and> (2 \<le> length [str ''client.py'', str ''toggle'']
       \<and> ascii ([str ''client.py'', str ''toggle''] ! 1))
   \<and> (ascii (str ''toggle'') \<and> upper (str ''toggle'') = token TOGGLE)
   \<and> run_connection (Recv (str ''start'')) None started = started
   \<and> active (run_connection (Recv (str '' TOGGLE\<newline>'')) None started) = spec_recording (active started) TOGGLE
   \<and> sent (client_main [str ''client.py'', str ''toggle''] None) = [upper ([str ''client.py'', str ''toggle''] ! 1)]
   \<and> upper (str ''toggle'') \<in> set (sent (client_main [str ''client.py'', str ''toggle''] None))
   \<and> run_connection (Recv (upper (str ''toggle''))) None started =
       run_connection (Recv (token TOGGLE)) None started"
proof -
  have h1: "strip (str ''start'') \<noteq> str ''START'' \<and> strip (str ''start'') \<noteq> str ''STOP''
       \<and> strip (str ''start'') \<noteq> str ''TOGGLE''"
    by (simp add: strip_def isspace_def)
  have h2: "strip (str '' TOGGLE\<newline>'') = token TOGGLE"
    by (simp add: strip_def isspace_def)
  have h3: "2 \<le> length [str ''client.py'', str ''toggle'']
       \<and> ascii ([str ''client.py'', str ''toggle''] ! 1)"
    by (simp add: ascii_def)
  have h4: "ascii (str ''toggle'') \<and> upper (str ''toggle'') = token TOGGLE"
    by (simp add: ascii_def upper_def upper_char_def)
  note a = daemon_matches_commands_exactly
      [where raw = "str ''start''" and wr = None and s = started]
  note b = daemon_matches_commands_exactly
      [where raw = "str '' TOGGLE\<newline>''" and c = TOGGLE and wr = None and s = started
         and argv = "[str ''client.py'', str ''toggle'']" and arg = "str ''toggle''"
         and prog = "str ''client.py''"]
  from a h1 have c1: "run_connection (Recv (str ''start'')) None started = started"
    by blast
  from b h2 have c2: "active (run_connection (Recv (str '' TOGGLE\<newline>'')) None started) = spec_recording (active started) TOGGLE"
    by blast
  from b h3 have c3: "sent (client_main [str ''client.py'', str ''toggle''] None) = [upper ([str ''client.py'', str ''toggle''] ! 1)]"
    by blast
  from b h4 have "\<forall>x \<in> set (sent (client_main [str ''client.py'', str ''toggle''] None)).
         run_connection (Recv x) None started = run_connection (Recv (token TOGGLE)) None started"
    by blast
  moreover have h5: "upper (str ''toggle'') \<in> set (sent (client_main [str ''client.py'', str ''toggle''] None))"
    by (simp add: client_main_def send_command_def)
  ultimately have c4: "run_connection (Recv (upper (str ''toggle''))) None started =
       run_connection (Recv (token TOGGLE)) None started"
    by (rule bspec)
  from h1 h2 h3 h4 h5 c1 c2 c3 c4 show ?thesis by blast
qed

text \<open>
  The specification has the daemon treat the token \<open>start\<close> as START. The daemon
  leaves its state as it is on \<open>start\<close>, although the upper-case form of that token is
  START, on which it starts recording.
\<close>

theorem lowercase_start_is_ignored_counterexample:
  "upper (str ''start'') = str ''START''
   \<and> run_connection (Recv (str ''start'')) None (init None) = init None
   \<and> \<not> active (init None)
   \<and> active (run_connection (Recv (str ''START'')) None (init None))"
  by (simp add: upper_def upper_char_def run_connection_def strip_def isspace_def init_def)

section \<open>The scheduler\<close>

text \<open>
  C5. While \<open>active\<close> holds, a pass of the scheduler calls the engine exactly when
  the number of queued blocks times 0.5 s is at least 2.0 s. After START and four
  blocks, a scheduler loop of at least one pass calls the engine exactly once, with the
  four blocks concatenated in order (2.0 s of samples when each block has
  \<open>CHUNK_SIZE\<close> samples), and leaves the queue empty. After START and three blocks
  the loop never calls the engine and the queue keeps its three blocks.
\<close>

theorem scheduler_runs_engine_at_two_seconds:
  "(active s \<longrightarrow>
      (engine_calls (state_of (transcription_step model ty wr s)) \<noteq> engine_calls s
         \<longleftrightarrow> 2 \<le> of_nat (length (audio_queue s)) * CHUNK_DURATION))
   \<and> (envs \<noteq> [] \<longrightarrow>
        engine_calls (state_of (transcription_loop envs
            (deliver [b1, b2, b3, b4] (run_connection (Recv (str ''START'')) wr0 s))))
          = engine_calls s @ [frombuffer b1 @ frombuffer b2 @ frombuffer b3 @ frombuffer b4]
        \<and> audio_queue (state_of (transcription_loop envs
            (deliver [b1, b2, b3, b4] (run_connection (Recv (str ''START'')) wr0 s)))) = [])
   \<and> (length b1 = CHUNK_SIZE \<and> length b2 = CHUNK_SIZE \<and> length b3 = CHUNK_SIZE \<and> length b4 = CHUNK_SIZE \<longrightarrow>
        length (frombuffer b1 @ frombuffer b2 @ frombuffer b3 @ frombuffer b4) = 2 * SAMPLE_RATE)
   \<and> engine_calls (state_of (transcription_loop envs
          (deliver [b1, b2, b3] (run_connection (Recv (str ''START'')) wr0 s)))) = engine_calls s
   \<and> length (audio_queue (state_of (transcription_loop envs
          (deliver [b1, b2, b3] (run_connection (Recv (str ''START'')) wr0 s))))) = 3"
proof -
  let ?start = "run_connection (Recv (str ''START'')) wr0 s"
  let ?four = "deliver [b1, b2, b3, b4] ?start"
  let ?three = "deliver [b1, b2, b3] ?start"
  let ?batch = "frombuffer b1 @ frombuffer b2 @ frombuffer b3 @ frombuffer b4"
  have 1: "active s \<longrightarrow>
      (engine_calls (state_of (transcription_step model ty wr s)) \<noteq> engine_calls s
         \<longleftrightarrow> 2 \<le> of_nat (length (audio_queue s)) * CHUNK_DURATION)"
  proof (cases "4 \<le> length (audio_queue s)")
    case True
    then show ?thesis
      by (auto simp add: transcription_step_drains threshold Let_def split: engine_result.splits)
  next
    case False
    then show ?thesis
      by (simp add: transcription_step_below threshold)
  qed
  have start: "active ?start" "engine_calls ?start = engine_calls s"
    using run_connection_command(1) [of START wr0 s] start_engine_calls [of wr0 s]
    by simp_all
  have "?four = ?start\<lparr>audio_queue := map frombuffer [b1, b2, b3, b4]\<rparr>"
    by (rule start_then_deliver)
  with start have four: "active ?four" "audio_queue ?four = map frombuffer [b1, b2, b3, b4]"
    "engine_calls ?four = engine_calls s"
    by simp_all
  have 2: "envs \<noteq> [] \<longrightarrow>
        engine_calls (state_of (transcription_loop envs ?four)) = engine_calls s @ [?batch]
        \<and> audio_queue (state_of (transcription_loop envs ?four)) = []"
  proof
    assume ne: "envs \<noteq> []"
    have len: "4 \<le> length (audio_queue ?four)"
      using four(2) by simp
    from transcription_loop_drains [OF four(1) len ne] four(2,3)
    show "engine_calls (state_of (transcription_loop envs ?four)) = engine_calls s @ [?batch]
        \<and> audio_queue (state_of (transcription_loop envs ?four)) = []"
      by simp
  qed
  have 3: "length b1 = CHUNK_SIZE \<and> length b2 = CHUNK_SIZE \<and> length b3 = CHUNK_SIZE \<and> length b4 = CHUNK_SIZE \<longrightarrow>
        length ?batch = 2 * SAMPLE_RATE"
    by (simp add: frombuffer_def CHUNK_SIZE_value SAMPLE_RATE_def)
  have "?three = ?start\<lparr>audio_queue := map frombuffer [b1, b2, b3]\<rparr>"
    by (rule start_then_deliver)
  with start have three: "audio_queue ?three = map frombuffer [b1, b2, b3]"
    "engine_calls ?three = engine_calls s"
    by simp_all
  have "length (audio_queue ?three) < 4"
    using three(1) by simp
  from transcription_loop_below [OF this, of envs] three
  have 4: "engine_calls (state_of (transcription_loop envs ?three)) = engine_calls s"
    and 5: "length (audio_queue (state_of (transcription_loop envs ?three))) = 3"
    by simp_all
  show ?thesis by (intro conjI 1 2 3 4 5)
qed

theorem scheduler_runs_engine_at_two_seconds_witness:
  "active started
   \<and> [(hello_engine, None :: outcome, None :: outcome)] \<noteq> []
   \<and> (length (replicate CHUNK_SIZE (0 :: 16 word)) = CHUNK_SIZE
      \<and> length (replicate CHUNK_SIZE (1 :: 16 word)) = CHUNK_SIZE
      \<and> length (replicate CHUNK_SIZE (2 :: 16 word)) = CHUNK_SIZE
      \<and> length (replicate CHUNK_SIZE (3 :: 16 word)) = CHUNK_SIZE)
   \<and> (engine_calls (state_of (transcription_step hello_engine None None started)) \<noteq> engine_calls started
         \<longleftrightarrow> 2 \<le> of_nat (length (audio_queue started)) * CHUNK_DURATION)
   \<and> audio_queue (state_of (transcription_loop [(hello_engine, None, None)]
        (deliver [replicate CHUNK_SIZE 0, replicate CHUNK_SIZE 1, replicate CHUNK_SIZE 2,
                  replicate CHUNK_SIZE 3]
           (run_connection (Recv (str ''START'')) None started)))) = []
   \<and> length (frombuffer (replicate CHUNK_SIZE 0) @ frombuffer (replicate CHUNK_SIZE 1)
        @ frombuffer (replicate CHUNK_SIZE 2) @ frombuffer (replicate CHUNK_SIZE 3)) = 2 * SAMPLE_RATE"
proof -
  note t = scheduler_runs_engine_at_two_seconds [of started hello_engine None None
      "[(hello_engine, None, None)]" "replicate CHUNK_SIZE 0" "replicate CHUNK_SIZE 1"
      "replicate CHUNK_SIZE 2" "replicate CHUNK_SIZE 3" None]
  have h1: "active started"
    by (rule started_fields)
  have h2: "[(hello_engine, None :: outcome, None :: outcome)] \<noteq> []"
    by simp
  have h3: "length (replicate CHUNK_SIZE (0 :: 16 word)) = CHUNK_SIZE
      \<and> length (replicate CHUNK_SIZE (1 :: 16 word)) = CHUNK_SIZE
      \<and> length (replicate CHUNK_SIZE (2 :: 16 word)) = CHUNK_SIZE
      \<and> length (replicate CHUNK_SIZE (3 :: 16 word)) = CHUNK_SIZE"
    by simp
  from t h1 have c1: "engine_calls (state_of (transcription_step hello_engine None None started)) \<noteq> engine_calls started
         \<longleftrightarrow> 2 \<le> of_nat (length (audio_queue started)) * CHUNK_DURATION"
    by blast
  from t h2 have c2: "audio_queue (state_of (transcription_loop [(hello_engine, None, None)]
        (deliver [replicate CHUNK_SIZE 0, replicate CHUNK_SIZE 1, replicate CHUNK_SIZE 2,
                  replicate CHUNK_SIZE 3]
           (run_connection (Recv (str ''START'')) None started)))) = []"
    by blast
  from t h3 have c3: "length (frombuffer (replicate CHUNK_SIZE 0) @ frombuffer (replicate CHUNK_SIZE 1)
        @ frombuffer (replicate CHUNK_SIZE 2) @ frombuffer (replicate CHUNK_SIZE 3)) = 2 * SAMPLE_RATE"
    by blast
  from h1 h2 h3 c1 c2 c3 show ?thesis by blast
qed

text \<open>
  C6. When the engine returns its segments for a drained batch, their texts are
  concatenated in order and stripped. A non-empty result is handed to \<open>wtype\<close> followed
  by one space, becomes the \<open>text\<close> of the status dict, and the dict is published;
  for an empty result nothing is typed, and the status dict and the published snapshots
  stay as they were.
\<close>

theorem recognised_text_is_typed_and_published:
  assumes "active s"
    and "2 \<le> of_nat (length (audio_queue s)) * CHUNK_DURATION"
    and "model (concat (audio_queue s)) = Segments segments"
  shows "(strip (concat segments) \<noteq> [] \<longrightarrow>
            injections (state_of (transcription_step model ty wr s)) =
              injections s @ [strip (concat segments) @ str '' '']
          \<and> status (state_of (transcription_step model ty wr s)) =
              (status s)\<lparr>st_text := strip (concat segments)\<rparr>
          \<and> publishes (state_of (transcription_step model ty wr s)) =
              publishes s @ (case wr of None \<Rightarrow> [(status s)\<lparr>st_text := strip (concat segments)\<rparr>]
                                       | Some m \<Rightarrow> []))
       \<and> (strip (concat segments) = [] \<longrightarrow>
            injections (state_of (transcription_step model ty wr s)) = injections s
          \<and> status (state_of (transcription_step model ty wr s)) = status s
          \<and> publishes (state_of (transcription_step model ty wr s)) = publishes s)"
proof -
  from assms(2) have len: "4 \<le> length (audio_queue s)"
    by (simp add: threshold)
  have st: "status (update_status None (Some t) None w s') = (status s')\<lparr>st_text := t\<rparr>" for t s' w
    by (simp add: update_status_def Let_def)
  show ?thesis
    by (simp add: transcription_step_drains [OF assms(1) len] assms(3) Let_def st split: option.splits)
qed

theorem recognised_text_is_typed_and_published_witness:
  "active four_queued
   \<and> 2 \<le> of_nat (length (audio_queue four_queued)) * CHUNK_DURATION
   \<and> hello_engine (concat (audio_queue four_queued)) = Segments [str '' hello'', str '' world '']
   \<and> silent_engine (concat (audio_queue four_queued)) = Segments []
   \<and> strip (concat [str '' hello'', str '' world '']) \<noteq> []
   \<and> strip (concat ([] :: pystr list)) = []
   \<and> injections (state_of (transcription_step hello_engine None None four_queued)) =
       [str ''hello world '']
   \<and> st_text (status (state_of (transcription_step hello_engine None None four_queued))) =
       str ''hello world''
   \<and> injections (state_of (transcription_step silent_engine None None four_queued)) = []
   \<and> status (state_of (transcription_step silent_engine None None four_queued)) =
       status four_queued"
proof -
  have h1: "active four_queued"
    by (rule four_queued_fields)
  have h2: "2 \<le> of_nat (length (audio_queue four_queued)) * CHUNK_DURATION"
    by (simp add: four_queued_fields CHUNK_DURATION_def)
  have h3: "hello_engine (concat (audio_queue four_queued)) = Segments [str '' hello'', str '' world '']"
    by (simp add: hello_engine_def)
  have h4: "silent_engine (concat (audio_queue four_queued)) = Segments []"
    by (simp add: silent_engine_def)
  have h5: "strip (concat [str '' hello'', str '' world '']) \<noteq> []"
    by (simp add: strip_def isspace_def)
  have h6: "strip (concat ([] :: pystr list)) = []"
    by (simp add: strip_def)
  note hello = recognised_text_is_typed_and_published
      [where s = four_queued and model = hello_engine and ty = None and wr = None, OF h1 h2 h3]
  note silent = recognised_text_is_typed_and_published
      [where s = four_queued and model = silent_engine and ty = None and wr = None, OF h1 h2 h4]
  from hello h5 have "injections (state_of (transcription_step hello_engine None None four_queued)) =
      injections four_queued @ [strip (concat [str '' hello'', str '' world '']) @ str '' '']"
    and "status (state_of (transcription_step hello_engine None None four_queued)) =
      (status four_queued)\<lparr>st_text := strip (concat [str '' hello'', str '' world ''])\<rparr>"
    by blast+
  then have c1: "injections (state_of (transcription_step hello_engine None None four_queued)) =
       [str ''hello world '']"
    and c2: "st_text (status (state_of (transcription_step hello_engine None None four_queued))) =
       str ''hello world''"
    by (simp_all add: strip_def isspace_def four_queued_fields)
  from silent h6 have "injections (state_of (transcription_step silent_engine None None four_queued)) =
       injections four_queued"
    and c4: "status (state_of (transcription_step silent_engine None None four_queued)) =
       status four_queued"
    by blast+
  then have c3: "injections (state_of (transcription_step silent_engine None None four_queued)) = []"
    by (simp add: four_queued_fields)
  from h1 h2 h3 h4 h5 h6 c1 c2 c3 c4 show ?thesis by blast
qed

text \<open>
  What an engine that raises does to the scheduler loop, for any state in which a pass
  calls the engine: the exception leaves \<open>transcription_loop\<close> at that pass, whatever
  passes were still to come, and the daemon is left with the batch taken out of the
  queue and the engine call as the last event of the trace.
\<close>

lemma engine_error_leaves_transcription_loop:
  assumes "active s"
    and "2 \<le> of_nat (length (audio_queue s)) * CHUNK_DURATION"
    and "model (concat (audio_queue s)) = Engine_raises m"
  shows "transcription_loop ((model, ty, wr) # envs) s =
           Raised m (emit [Transcribe (concat (audio_queue s))] (s\<lparr>audio_queue := []\<rparr>))"
proof -
  from assms(2) have len: "4 \<le> length (audio_queue s)"
    by (simp add: threshold)
  show ?thesis
    by (simp add: transcription_step_drains [OF assms(1) len] assms(3) Let_def)
qed

text \<open>
  C2. The specification says that an error raised by the engine on a batch is caught
  and logged, that the scheduler loop goes on with its next pass, and that the batch is
  dropped and not retried. The code does not do the first two: with four blocks queued
  and an engine that raises, \<open>transcription_loop\<close> ends with the exception in the first
  of its two passes. The second pass does not run, the daemon prints no line of its own
  for the error, and \<open>active\<close> and the published status still say that it is recording.
  Only the last part holds: the batch had left the queue before the call.
\<close>

theorem engine_error_kills_scheduler_loop:
  "transcription_loop [(failing_engine, None, None), (hello_engine, None, None)] four_queued =
     Raised (str ''boom'')
       \<lparr>active = True, audio_queue = [],
        status = \<lparr>st_active = True, st_text = [], st_error = None\<rparr>,
        trace = [Write_status \<lparr>st_active = False, st_text = [], st_error = None\<rparr>,
                 Print (str ''Command: START''),
                 Write_status \<lparr>st_active = True, st_text = [], st_error = None\<rparr>,
                 Transcribe [1 / 32768, 1 / 16384, 3 / 32768, 1 / 8192]]\<rparr>"
  by (simp add: four_queued_def started_def init_def run_connection_def update_status_def
      strip_def isspace_def Let_def emit_def audio_callback_def frombuffer_def to_float32_def
      transcription_step_def drain_def CHUNK_DURATION_def failing_engine_def)

section \<open>The status dict\<close>

text \<open>
  C10. \<open>update_status\<close> changes exactly the keys it is given a value for and leaves the
  others; a successful write puts the whole dict, with its three keys, in the status
  file, and a failed one writes nothing. The publish of STOP keeps the text. Once the dict has an error, every run of
  connections, blocks, scheduler passes and publishes keeps an error in the dict and in
  every snapshot written from then on.
\<close>

theorem update_status_keeps_unsupplied_fields:
  "st_active (status (update_status a t e wr s)) =
      (case a of None \<Rightarrow> st_active (status s) | Some v \<Rightarrow> v)
   \<and> st_text (status (update_status a t e wr s)) =
      (case t of None \<Rightarrow> st_text (status s) | Some v \<Rightarrow> v)
   \<and> st_error (status (update_status a t e wr s)) =
      (case e of None \<Rightarrow> st_error (status s) | Some v \<Rightarrow> Some v)
   \<and> publishes (update_status a t e None s) = publishes s @ [status (update_status a t e None s)]
   \<and> publishes (update_status a t e (Some m) s) = publishes s
   \<and> st_text (status (run_connection (Recv (str ''STOP'')) wr s)) = st_text (status s)
   \<and> (st_error (status s) \<noteq> None \<longrightarrow>
        st_error (status (perform_all ops s)) \<noteq> None
        \<and> take (length (publishes s)) (publishes (perform_all ops s)) = publishes s
        \<and> (\<forall>d \<in> set (drop (length (publishes s)) (publishes (perform_all ops s))).
              st_error d \<noteq> None))"
proof -
  have 1: "st_text (status (run_connection (Recv (str ''STOP'')) wr s)) = st_text (status s)"
    using run_connection_command_status [of STOP wr s] by simp
  have 2: "st_error (status s) \<noteq> None \<longrightarrow>
        st_error (status (perform_all ops s)) \<noteq> None
        \<and> take (length (publishes s)) (publishes (perform_all ops s)) = publishes s
        \<and> (\<forall>d \<in> set (drop (length (publishes s)) (publishes (perform_all ops s))).
              st_error d \<noteq> None)"
  proof
    assume "st_error (status s) \<noteq> None"
    then have "error_kept s (perform_all ops s)"
      by (rule error_kept_perform_all)
    then show "st_error (status (perform_all ops s)) \<noteq> None
        \<and> take (length (publishes s)) (publishes (perform_all ops s)) = publishes s
        \<and> (\<forall>d \<in> set (drop (length (publishes s)) (publishes (perform_all ops s))).
              st_error d \<noteq> None)"
      by (auto simp add: error_kept_def)
  qed
  have 3: "publishes (update_status a t e None s) = publishes s @ [status (update_status a t e None s)]"
    "publishes (update_status a t e (Some m) s) = publishes s"
    by simp_all
  show ?thesis
    by (intro conjI update_status_status 1 2 3)
qed

theorem update_status_keeps_unsupplied_fields_witness:
  "st_error (status load_failed) \<noteq> None
   \<and> \<lparr>st_active = False, st_text = [], st_error = Some (str ''no model'')\<rparr>
       \<in> set (drop (length (publishes load_failed))
                (publishes (perform_all [Connection (Recv (str ''STOP'')) None] load_failed)))
   \<and> st_error (status (perform_all [Connection (Recv (str ''STOP'')) None] load_failed)) \<noteq> None
   \<and> st_error \<lparr>st_active = False, st_text = [], st_error = Some (str ''no model'')\<rparr> \<noteq> None"
proof -
  have h1: "st_error (status load_failed) \<noteq> None"
    by (simp add: load_failed_def load_model_def init_def update_status_def Let_def)
  have h2: "\<lparr>st_active = False, st_text = [], st_error = Some (str ''no model'')\<rparr>
       \<in> set (drop (length (publishes load_failed))
                (publishes (perform_all [Connection (Recv (str ''STOP'')) None] load_failed)))"
    by (simp add: load_failed_def load_model_def init_def update_status_def Let_def emit_def
        publishes_def perform_all_def run_connection_def strip_def isspace_def)
  note t = update_status_keeps_unsupplied_fields
      [where s = load_failed and ops = "[Connection (Recv (str ''STOP'')) None]"]
  from t h1 have c1: "st_error (status (perform_all [Connection (Recv (str ''STOP'')) None] load_failed)) \<noteq> None"
    and c: "\<forall>d \<in> set (drop (length (publishes load_failed))
                (publishes (perform_all [Connection (Recv (str ''STOP'')) None] load_failed))).
              st_error d \<noteq> None"
    by blast+
  from c h2 have c2: "st_error \<lparr>st_active = False, st_text = [], st_error = Some (str ''no model'')\<rparr> \<noteq> None"
    by (rule bspec)
  from h1 h2 c1 c2 show ?thesis by blast
qed

section \<open>The capture thread and the scheduler thread\<close>

text \<open>
  C1 (amended). The scheduler's concatenation and its clear are two steps, and neither
  they nor the append of the callback are inside an exclusive region, so a delivery can
  run before, between or after them. While recording, a block delivered before the
  concatenation is in the batch, and a block delivered after the clear is in the queue;
  a block delivered between the two steps is in neither: the clear removes it. Without
  a delivery in between, the two steps are the drain of the scheduler pass.
\<close>

theorem drain_is_two_steps:
  assumes "active s"
  shows "interleavings [Callback b] [Concatenate, Clear] =
           [[Callback b, Concatenate, Clear], [Concatenate, Callback b, Clear],
            [Concatenate, Clear, Callback b]]
       \<and> interleaving [Callback b, Concatenate, Clear] s =
           \<lparr>shared = s\<lparr>audio_queue := []\<rparr>,
            audio_data = Some (concat (audio_queue s) @ frombuffer b)\<rparr>
       \<and> interleaving [Concatenate, Clear, Callback b] s =
           \<lparr>shared = s\<lparr>audio_queue := [frombuffer b]\<rparr>,
            audio_data = Some (concat (audio_queue s))\<rparr>
       \<and> interleaving [Concatenate, Callback b, Clear] s =
           \<lparr>shared = s\<lparr>audio_queue := []\<rparr>,
            audio_data = Some (concat (audio_queue s))\<rparr>
       \<and> interleaving [Concatenate, Clear] s =
           \<lparr>shared = snd (drain s), audio_data = Some (fst (drain s))\<rparr>"
  using assms by (simp add: interleaving_def audio_callback_def drain_def)

theorem drain_is_two_steps_witness:
  "active four_queued
   \<and> interleaving [Callback [5], Concatenate, Clear] four_queued =
           \<lparr>shared = four_queued\<lparr>audio_queue := []\<rparr>,
            audio_data = Some (concat (audio_queue four_queued) @ frombuffer [5])\<rparr>
   \<and> interleaving [Concatenate, Callback [5], Clear] four_queued =
           \<lparr>shared = four_queued\<lparr>audio_queue := []\<rparr>,
            audio_data = Some (concat (audio_queue four_queued))\<rparr>"
proof -
  have h: "active four_queued"
    by (rule four_queued_fields)
  note t = drain_is_two_steps [OF h, where b = "[5]"]
  from h t show ?thesis by blast
qed

text \<open>
  The specification asks that for every interleaving the delivered block is in the
  batch or still queued. With four blocks queued, the block with the sample 5 delivered
  between the concatenation and the clear is not in the batch of the four earlier
  samples, and the queue is empty afterwards.
\<close>

theorem block_between_concatenate_and_clear_is_lost_counterexample:
  "active four_queued
   \<and> [Concatenate, Callback [5], Clear] \<in> set (interleavings [Callback [5]] [Concatenate, Clear])
   \<and> frombuffer [5] = [5 / 32768]
   \<and> audio_data (interleaving [Concatenate, Callback [5], Clear] four_queued) =
       Some [1 / 32768, 1 / 16384, 3 / 32768, 1 / 8192]
   \<and> audio_queue (shared (interleaving [Concatenate, Callback [5], Clear] four_queued)) = []"
  by (simp add: interleaving_def audio_callback_def four_queued_fields frombuffer_def to_float32_def)

section \<open>The client\<close>

text \<open>
  C9 (amended). Called with a command argument, the client exits with code 0 when the
  command was sent (for an ASCII argument, the argument in upper case), having printed
  nothing; when a socket call fails it prints the failure message on standard output,
  nothing on standard error, and exits with code 1.
\<close>

theorem client_exit_codes:
  "2 \<le> length argv \<longrightarrow>
     exit_code (client_main argv None) = 0
     \<and> length (sent (client_main argv None)) = 1
     \<and> (ascii (argv ! 1) \<longrightarrow> sent (client_main argv None) = [upper (argv ! 1)])
     \<and> stdout (client_main argv None) = []
     \<and> stderr (client_main argv None) = []
     \<and> exit_code (client_main argv (Some m)) = 1
     \<and> stdout (client_main argv (Some m)) = [str ''Failed to connect to daemon: '' @ m]
     \<and> stderr (client_main argv (Some m)) = []
     \<and> sent (client_main argv (Some m)) = []"
  by (simp add: client_main_returns client_main_sends client_main_fails exit_code_def)

theorem client_exit_codes_witness:
  "2 \<le> length [str ''client.py'', str ''stop'']
   \<and> ascii ([str ''client.py'', str ''stop''] ! 1)
   \<and> sent (client_main [str ''client.py'', str ''stop''] None) =
       [upper ([str ''client.py'', str ''stop''] ! 1)]
   \<and> upper ([str ''client.py'', str ''stop''] ! 1) = str ''STOP''
   \<and> exit_code (client_main [str ''client.py'', str ''stop''] None) = 0
   \<and> exit_code (client_main [str ''client.py'', str ''stop''] (Some (str ''refused''))) = 1
   \<and> stderr (client_main [str ''client.py'', str ''stop''] (Some (str ''refused''))) = []"
proof -
  have h: "2 \<le> length [str ''client.py'', str ''stop'']"
    by simp
  have a: "ascii ([str ''client.py'', str ''stop''] ! 1)"
    by (simp add: ascii_def)
  have u: "upper ([str ''client.py'', str ''stop''] ! 1) = str ''STOP''"
    by (simp add: upper_def upper_char_def)
  note t = client_exit_codes
      [where argv = "[str ''client.py'', str ''stop'']" and m = "str ''refused''"]
  from t h a have c0: "sent (client_main [str ''client.py'', str ''stop''] None) =
       [upper ([str ''client.py'', str ''stop''] ! 1)]"
    by blast
  from t h have c1: "exit_code (client_main [str ''client.py'', str ''stop''] None) = 0"
    and c2: "exit_code (client_main [str ''client.py'', str ''stop''] (Some (str ''refused''))) = 1"
    and c3: "stderr (client_main [str ''client.py'', str ''stop''] (Some (str ''refused''))) = []"
    by blast+
  from h a u c0 c1 c2 c3 show ?thesis by blast
qed

text \<open>
  The specification puts the failure message on the error stream. On a refused
  connection the message is on standard output and standard error stays empty.
\<close>

theorem failure_message_goes_to_stdout_counterexample:
  "stderr (client_main [str ''client.py'', str ''start''] (Some (str ''refused''))) = []
   \<and> stdout (client_main [str ''client.py'', str ''start''] (Some (str ''refused''))) =
       [str ''Failed to connect to daemon: refused'']
   \<and> exit_code (client_main [str ''client.py'', str ''start''] (Some (str ''refused''))) = 1"
  by (simp add: client_main_def send_command_def exit_code_def)

end
